theory Spec2Isabelle
  imports Complex_Main
begin

section \<open>Economic order quantity and total annual cost\<close>

text \<open>
  The notebook \<open>5-Functions_and_Modules/Functions_and_Modules_Introduction.ipynb\<close>
  defines two functions (each twice, the second time with a docstring and the same body):
  \<^verbatim>\<open>
  def Compute_EOQ(annual_demand, order_cost, holding_cost):
      import numpy as np
      EOQ = np.sqrt((2*annual_demand*order_cost)/holding_cost)
      return EOQ

  def Compute_EOQ_TAC(EOQ, annual_demand, order_cost, holding_cost, unit_cost):
      TAC = (annual_demand/EOQ)*order_cost + (EOQ/2)*holding_cost + unit_cost*annual_demand
      return TAC
  \<close>
  Two embeddings of them are given.

  The first is the formula. The arguments are real numbers and the arithmetic is exact; the
  two ways in which the functions do not produce a number are written out:
  \<^item> the operator \<open>/\<close> on Python's built-in numbers raises \<open>ZeroDivisionError\<close> when the
    divisor is zero;
  \<^item> \<open>np.sqrt\<close> of a negative number does not raise, it returns \<open>nan\<close> (with a warning).

  It settles which expression is returned, the documented example (stated with a tolerance)
  and the identities of exact real arithmetic.

  The second is the machine. An operand is a Python \<open>int\<close>, a Python \<open>float\<close> or a NumPy
  \<open>float64\<close> scalar (the notebook passes all three: integer literals, the \<open>float64\<close> that
  \<open>np.sqrt\<close> returns, and holding costs taken from \<open>np.linspace\<close>); a floating-point
  result is the exact result rounded to binary64, zeros carry a sign, \<open>inf\<close> and \<open>nan\<close> are
  values, and \<open>/\<close> raises only between built-in numbers. It settles what a zero divisor
  does and what sign the results have.
\<close>

section \<open>The formula in exact arithmetic\<close>

subsection \<open>Values and errors\<close>

datatype error = ZeroDivisionError | OverflowError

text \<open>What \<open>np.sqrt\<close> hands back: a number or the not-a-number value.\<close>

datatype npfloat = Num real | NaN

text \<open>Python's true division \<open>x / y\<close> on numbers.\<close>

definition truediv :: "real \<Rightarrow> real \<Rightarrow> error + real" where
  "truediv x y = (if y = 0 then Inl ZeroDivisionError else Inr (x / y))"

text \<open>
  \<open>np.sqrt\<close> on a scalar. The square root of HOL is total and odd (\<open>sqrt (- 4) = - 2\<close>),
  so the negative case is written out.
\<close>

definition np_sqrt :: "real \<Rightarrow> npfloat" where
  "np_sqrt x = (if x < 0 then NaN else Num (sqrt x))"

subsection \<open>The two functions\<close>

definition Compute_EOQ :: "real \<Rightarrow> real \<Rightarrow> real \<Rightarrow> error + npfloat" where
  "Compute_EOQ annual_demand order_cost holding_cost =
     (case truediv (2 * annual_demand * order_cost) holding_cost of
        Inl e \<Rightarrow> Inl e
      | Inr radicand \<Rightarrow> Inr (np_sqrt radicand))"

definition Compute_EOQ_TAC :: "real \<Rightarrow> real \<Rightarrow> real \<Rightarrow> real \<Rightarrow> real \<Rightarrow> error + real" where
  "Compute_EOQ_TAC EOQ annual_demand order_cost holding_cost unit_cost =
     (case truediv annual_demand EOQ of
        Inl e \<Rightarrow> Inl e
      | Inr orders \<Rightarrow>
          (case truediv EOQ 2 of
             Inl e \<Rightarrow> Inl e
           | Inr cycle_stock \<Rightarrow>
               Inr (orders * order_cost + cycle_stock * holding_cost
                    + unit_cost * annual_demand)))"

section \<open>The machine: binary64 values and Python operands\<close>

subsection \<open>binary64 values and rounding\<close>

text \<open>
  A binary64 value is a finite number (\<open>Finite 0\<close> is \<open>+0.0\<close>), the negative zero, one of
  the two infinities, or \<open>nan\<close>.

  \<open>rne\<close> rounds a real to the nearest integer, ties to the even one. \<open>quantum x\<close> is
  the spacing of the binary64 numbers around \<open>x\<close>: 52 binary places below the exponent of
  \<open>x\<close>, and never below \<open>2 powr (- 1074)\<close>, the spacing of the subnormal numbers.
  \<open>round64\<close> is rounding to nearest, ties to even: a magnitude that rounds to \<open>2 ^ 1024\<close> or
  more overflows to the infinity of its sign, a magnitude that rounds to zero underflows to
  the zero of its sign.
\<close>

datatype float64 = Finite real | MinusZero | PlusInf | MinusInf | NotANumber




text \<open>Classification, sign bit and value of a binary64 value; zeros and infinities by sign.\<close>

fun is_nan :: "float64 \<Rightarrow> bool" where
  "is_nan NotANumber = True"
| "is_nan _ = False"

fun is_inf :: "float64 \<Rightarrow> bool" where
  "is_inf PlusInf = True"
| "is_inf MinusInf = True"
| "is_inf _ = False"

fun is_zero :: "float64 \<Rightarrow> bool" where
  "is_zero (Finite r) = (r = 0)"
| "is_zero MinusZero = True"
| "is_zero _ = False"

fun negative :: "float64 \<Rightarrow> bool" where
  "negative (Finite r) = (r < 0)"
| "negative MinusZero = True"
| "negative MinusInf = True"
| "negative _ = False"

fun val :: "float64 \<Rightarrow> real" where
  "val (Finite r) = r"
| "val _ = 0"







subsection \<open>Operands and the operators on them\<close>

text \<open>
  An \<open>int\<close> that meets a floating-point operand is converted first: rounded to binary64,
  with \<open>OverflowError\<close> when it rounds out of range. The result of an operator is a NumPy
  scalar as soon as one operand is one.
\<close>

datatype number = PyInt int | PyFloat float64 | NpFloat float64

fun is_np :: "number \<Rightarrow> bool" where
  "is_np (NpFloat v) = True"
| "is_np _ = False"

definition wrap :: "bool \<Rightarrow> float64 \<Rightarrow> number" where
  "wrap np v = (if np then NpFloat v else PyFloat v)"









subsection \<open>The two functions on the machine\<close>



subsection \<open>Sets of operands named in the statements\<close>

text \<open>
  \<open>pow2 k\<close> is the float \<open>2.0 ** k\<close>. \<open>small k\<close> holds of every floating-point operand and
  of the \<open>int\<close>s of magnitude below \<open>2 ^ k\<close>. \<open>zero_valued\<close> holds of \<open>0\<close>, \<open>0.0\<close> and
  \<open>-0.0\<close>. \<open>special\<close> holds of the infinities and \<open>nan\<close>. \<open>nonneg\<close> holds of the finite
  numbers that are not negative (\<open>+0.0\<close> among them, not \<open>-0.0\<close>) and of \<open>inf\<close>.
  \<open>positive_number\<close> holds of the positive floats and of the positive \<open>int\<close>s below
  \<open>2 ^ 53\<close>, \<open>nonneg_input\<close> of the floats and \<open>int\<close>s below \<open>2 ^ 53\<close> that Python compares as
  \<open>>= 0\<close> (\<open>-0.0\<close> among them), \<open>minus_zero\<close> of the floating-point \<open>-0.0\<close> alone.
  \<open>nonneg_number k\<close> and \<open>nonneg_float\<close> are the intermediate results met on the way:
  not negative, an \<open>int\<close> only below \<open>2 ^ k\<close>, respectively never an \<open>int\<close>.
\<close>

definition pow2 :: "int \<Rightarrow> float64" where
  "pow2 k = Finite (2 powr of_int k)"

fun small :: "nat \<Rightarrow> number \<Rightarrow> bool" where
  "small k (PyInt n) = (\<bar>n\<bar> < 2 ^ k)"
| "small k _ = True"



fun nonneg :: "float64 \<Rightarrow> bool" where
  "nonneg (Finite y) = (0 \<le> y)"
| "nonneg PlusInf = True"
| "nonneg _ = False"




fun nonneg_number :: "nat \<Rightarrow> number \<Rightarrow> bool" where
  "nonneg_number k (PyInt n) = (0 \<le> n \<and> n < 2 ^ k)"
| "nonneg_number k (PyFloat v) = nonneg v"
| "nonneg_number k (NpFloat v) = nonneg v"

fun nonneg_float :: "number \<Rightarrow> bool" where
  "nonneg_float (PyInt n) = False"
| "nonneg_float (PyFloat v) = nonneg v"
| "nonneg_float (NpFloat v) = nonneg v"

section \<open>Properties\<close>

subsection \<open>Helper facts of the exact model\<close>

text \<open>Both functions return a number as soon as their divisor is not zero.\<close>

lemma Compute_EOQ_nonzero:
  "holding_cost \<noteq> 0 \<Longrightarrow>
   Compute_EOQ annual_demand order_cost holding_cost =
     Inr (np_sqrt (2 * annual_demand * order_cost / holding_cost))"
  by (simp add: Compute_EOQ_def truediv_def)

lemma Compute_EOQ_TAC_nonzero:
  "EOQ \<noteq> 0 \<Longrightarrow>
   Compute_EOQ_TAC EOQ annual_demand order_cost holding_cost unit_cost =
     Inr ((annual_demand / EOQ) * order_cost + (EOQ / 2) * holding_cost
          + unit_cost * annual_demand)"
  by (simp add: Compute_EOQ_TAC_def truediv_def)

lemma EOQ_of_positive_radicand:
  assumes "0 < holding_cost" and "0 < 2 * annual_demand * order_cost / holding_cost"
  shows "Compute_EOQ annual_demand order_cost holding_cost =
           Inr (Num (sqrt (2 * annual_demand * order_cost / holding_cost)))"
  using assms by (simp add: Compute_EOQ_nonzero np_sqrt_def)

text \<open>Arithmetic of the radicand under the rescalings of demand and holding cost.\<close>

lemma radicand_scaled_inverse:
  fixes a c h k :: real
  assumes "0 < h" and "0 < k"
  shows "2 * (k\<^sup>2 * a) * c / (h / k\<^sup>2) = (k\<^sup>2)\<^sup>2 * (2 * a * c / h)"
proof -
  have "k\<^sup>2 \<noteq> 0" using assms by simp
  then show ?thesis by (simp add: power2_eq_square)
qed

lemma sqrt_scaled:
  fixes k r :: real
  shows "sqrt ((k\<^sup>2)\<^sup>2 * r) = k\<^sup>2 * sqrt r"
proof -
  have "sqrt ((k\<^sup>2)\<^sup>2 * r) = sqrt ((k\<^sup>2)\<^sup>2) * sqrt r"
    by (rule real_sqrt_mult)
  also have "sqrt ((k\<^sup>2)\<^sup>2) = \<bar>k\<^sup>2\<bar>"
    by (rule real_sqrt_abs)
  also have "\<bar>k\<^sup>2\<bar> = k\<^sup>2"
    by (rule abs_of_nonneg) (rule zero_le_power2)
  finally show ?thesis .
qed

lemma sqrt_16: "sqrt 16 = 4"
  by (rule real_sqrt_unique) simp_all

text \<open>At the economic order quantity the ordering term and the holding term coincide.\<close>

lemma sqrt_balance:
  fixes a c h :: real
  assumes "0 < a" and "0 < c" and "0 < h"
  shows "(a / sqrt (2 * a * c / h)) * c = (sqrt (2 * a * c / h) / 2) * h"
proof -
  define Q where "Q = sqrt (2 * a * c / h)"
  have r: "0 < 2 * a * c / h" using assms by simp
  then have Q: "0 < Q" unfolding Q_def by (rule real_sqrt_gt_zero)
  have "Q * Q = \<bar>2 * a * c / h\<bar>" unfolding Q_def by (rule real_sqrt_mult_self)
  with r have "Q * Q = 2 * a * c / h" by linarith
  then have "Q * Q * h = 2 * a * c" using assms(3) by (simp add: field_simps)
  then have "a * c = Q * (Q * h / 2)" by (simp add: algebra_simps)
  then have "a * c / Q = Q * h / 2" using Q by (simp add: field_simps)
  then have "(a / Q) * c = (Q / 2) * h" by simp
  then show ?thesis unfolding Q_def .
qed

text \<open>Decimal bounds for the documented example.\<close>

lemma sqrt_25000_lower: "158.11388300841898 - 1 / 10 ^ 9 \<le> sqrt 25000"
  by (rule real_le_rsqrt) (simp add: power2_eq_square)

lemma sqrt_25000_upper: "sqrt 25000 \<le> 158.11388300841898 + 1 / 10 ^ 9"
  by (rule real_le_lsqrt) (simp_all add: power2_eq_square)

lemma TAC_scenario_value:
  "\<bar>(1000 / 158.11388300841898) * 25 + (158.11388300841898 / 2) * 2 + 8 * 1000
     - (8316.227766016838 :: real)\<bar> \<le> 1 / 10 ^ 6"
  unfolding abs_le_iff by simp

subsection \<open>Helper facts of the machine model\<close>























lemma pow2_flags [simp]:
  "\<not> is_nan (pow2 k)" "\<not> is_inf (pow2 k)" "\<not> is_zero (pow2 k)" "\<not> negative (pow2 k)"
  "val (pow2 k) = 2 powr of_int k"
  by (simp_all add: pow2_def not_less)
















lemma is_np_wrap [simp]: "is_np (wrap b v) = b"
  by (simp add: wrap_def)

lemma small_wrap [simp]: "small k (wrap b v)"
  by (simp add: wrap_def)


















lemma nonneg_float_wrap [simp]: "nonneg_float (wrap b v) = nonneg v"
  by (simp add: wrap_def)

lemma nonneg_number_wrap [simp]: "nonneg_number k (wrap b v) = nonneg v"
  by (simp add: wrap_def)



















subsection \<open>The formula of the order quantity\<close>



subsection \<open>The formula of the total annual cost\<close>



subsection \<open>Division by zero\<close>







subsection \<open>Sign of the results\<close>







subsection \<open>Negative radicand\<close>



subsection \<open>Scaling of demand and holding cost\<close>

text \<open>
  C6. The scaling law in the form \<open>EOQ(a, o, h) = EOQ(k\<^sup>2 a, o, h / k\<^sup>2)\<close> does not follow
  from the formula, and neither does its instance that doubling the holding cost while
  quadrupling the demand leaves the result unchanged: from the inputs \<open>(1, 1, 2)\<close>, where the
  result is \<open>1\<close>, the first rescaling with \<open>k = 2\<close> gives \<open>4\<close> and the second gives \<open>sqrt 2\<close>.
\<close>

theorem Compute_EOQ_scaling_counterexample:
  "Compute_EOQ 1 1 2 = Inr (Num 1)
   \<and> Compute_EOQ (2\<^sup>2 * 1) 1 (2 / 2\<^sup>2) = Inr (Num 4)
   \<and> Compute_EOQ (4 * 1) 1 (2 * 2) = Inr (Num (sqrt 2))
   \<and> Compute_EOQ 1 1 2 \<noteq> Compute_EOQ (2\<^sup>2 * 1) 1 (2 / 2\<^sup>2)
   \<and> Compute_EOQ 1 1 2 \<noteq> Compute_EOQ (4 * 1) 1 (2 * 2)"
  by (simp add: Compute_EOQ_nonzero np_sqrt_def sqrt_16)

text \<open>
  C6, as amended. As identities of the formula, in exact real arithmetic, for positive \<open>a\<close>,
  \<open>o\<close>, \<open>h\<close> and every positive scale factor \<open>k\<close>: multiplying the demand by \<open>k\<^sup>2\<close> and
  dividing the holding cost by \<open>k\<^sup>2\<close> multiplies the result of \<open>Compute_EOQ\<close> by \<open>k\<^sup>2\<close>;
  doubling the holding cost while quadrupling the demand multiplies it by \<open>sqrt 2\<close>.
\<close>

theorem Compute_EOQ_scaling:
  assumes "0 < a" and "0 < c" and "0 < h" and "0 < k"
  shows "\<exists>q. Compute_EOQ a c h = Inr (Num q)
     \<and> Compute_EOQ (k\<^sup>2 * a) c (h / k\<^sup>2) = Inr (Num (k\<^sup>2 * q))
     \<and> Compute_EOQ (4 * a) c (2 * h) = Inr (Num (sqrt 2 * q))"
proof -
  define r where "r = 2 * a * c / h"
  have r: "0 < r" unfolding r_def using assms by simp
  have k2: "0 < k\<^sup>2" using assms(4) by simp
  have base: "Compute_EOQ a c h = Inr (Num (sqrt r))"
    unfolding r_def using assms(3) r [unfolded r_def] by (rule EOQ_of_positive_radicand)
  have inv: "Compute_EOQ (k\<^sup>2 * a) c (h / k\<^sup>2) = Inr (Num (k\<^sup>2 * sqrt r))"
  proof -
    have e: "2 * (k\<^sup>2 * a) * c / (h / k\<^sup>2) = (k\<^sup>2)\<^sup>2 * r"
      unfolding r_def using assms(3,4) by (rule radicand_scaled_inverse)
    have "0 < (k\<^sup>2)\<^sup>2 * r" using r k2 by simp
    then have p: "0 < 2 * (k\<^sup>2 * a) * c / (h / k\<^sup>2)" by (simp only: e)
    have "0 < h / k\<^sup>2" using assms(3) k2 by simp
    then have "Compute_EOQ (k\<^sup>2 * a) c (h / k\<^sup>2) =
        Inr (Num (sqrt (2 * (k\<^sup>2 * a) * c / (h / k\<^sup>2))))"
      using p by (rule EOQ_of_positive_radicand)
    then show ?thesis by (simp only: e sqrt_scaled)
  qed
  have dbl: "Compute_EOQ (4 * a) c (2 * h) = Inr (Num (sqrt 2 * sqrt r))"
  proof -
    have e: "2 * (4 * a) * c / (2 * h) = 2 * r"
      unfolding r_def by simp
    have "0 < 2 * r" using r by simp
    then have p: "0 < 2 * (4 * a) * c / (2 * h)" by (simp only: e)
    have "0 < 2 * h" using assms(3) by simp
    then have "Compute_EOQ (4 * a) c (2 * h) = Inr (Num (sqrt (2 * (4 * a) * c / (2 * h))))"
      using p by (rule EOQ_of_positive_radicand)
    then show ?thesis by (simp only: e real_sqrt_mult)
  qed
  from base inv dbl show ?thesis by blast
qed

theorem Compute_EOQ_scaling_witness:
  "(0::real) < 1 \<and> (0::real) < 2 \<and>
   (\<exists>q. Compute_EOQ 1 1 2 = Inr (Num q)
     \<and> Compute_EOQ (2\<^sup>2 * 1) 1 (2 / 2\<^sup>2) = Inr (Num (2\<^sup>2 * q))
     \<and> Compute_EOQ (4 * 1) 1 (2 * 2) = Inr (Num (sqrt 2 * q)))"
  using Compute_EOQ_scaling [of 1 1 2 2] by simp

subsection \<open>The documented example\<close>

text \<open>
  C7. With annual demand 1000, order cost 25, holding cost 2 and unit cost 8, the value of
  \<open>Compute_EOQ 1000 25 2\<close> lies within \<open>10\<^sup>-\<^sup>9\<close> of 158.11388300841898, and the value of
  \<open>Compute_EOQ_TAC 158.11388300841898 1000 25 2 8\<close> lies within \<open>10\<^sup>-\<^sup>6\<close> of
  8316.227766016838.
\<close>

theorem scenario_1000_25_2_8:
  "Compute_EOQ 1000 25 2 = Inr (Num (sqrt 25000))
   \<and> \<bar>sqrt 25000 - 158.11388300841898\<bar> \<le> 1 / 10 ^ 9
   \<and> Compute_EOQ_TAC 158.11388300841898 1000 25 2 8 =
       Inr ((1000 / 158.11388300841898) * 25 + (158.11388300841898 / 2) * 2 + 8 * 1000)
   \<and> \<bar>(1000 / 158.11388300841898) * 25 + (158.11388300841898 / 2) * 2 + 8 * 1000
        - (8316.227766016838 :: real)\<bar> \<le> 1 / 10 ^ 6"
proof (intro conjI)
  show "Compute_EOQ 1000 25 2 = Inr (Num (sqrt 25000))"
    by (simp add: Compute_EOQ_nonzero np_sqrt_def)
  show "\<bar>sqrt 25000 - 158.11388300841898\<bar> \<le> 1 / 10 ^ 9"
    using sqrt_25000_lower sqrt_25000_upper unfolding abs_le_iff by linarith
  have "(158.11388300841898 :: real) \<noteq> 0" by simp
  then show "Compute_EOQ_TAC 158.11388300841898 1000 25 2 8 =
       Inr ((1000 / 158.11388300841898) * 25 + (158.11388300841898 / 2) * 2 + 8 * 1000)"
    by (rule Compute_EOQ_TAC_nonzero)
  show "\<bar>(1000 / 158.11388300841898) * 25 + (158.11388300841898 / 2) * 2 + 8 * 1000
        - (8316.227766016838 :: real)\<bar> \<le> 1 / 10 ^ 6"
    by (rule TAC_scenario_value)
qed

subsection \<open>Cost balance of the two-stage pipeline\<close>

text \<open>
  C10. For positive annual demand, order cost and holding cost, \<open>Compute_EOQ\<close> returns a
  positive number \<open>Q\<close> at which the ordering term equals the holding term,
  \<open>(annual_demand / Q) * order_cost = (Q / 2) * holding_cost\<close>, so that \<open>Compute_EOQ_TAC\<close>
  called with this \<open>Q\<close> returns \<open>Q * holding_cost + unit_cost * annual_demand\<close>.
\<close>

theorem EOQ_cost_balance:
  assumes "0 < annual_demand" and "0 < order_cost" and "0 < holding_cost"
  shows "\<exists>Q. Compute_EOQ annual_demand order_cost holding_cost = Inr (Num Q) \<and> 0 < Q
      \<and> (annual_demand / Q) * order_cost = (Q / 2) * holding_cost
      \<and> Compute_EOQ_TAC Q annual_demand order_cost holding_cost unit_cost =
          Inr (Q * holding_cost + unit_cost * annual_demand)"
proof -
  define Q where "Q = sqrt (2 * annual_demand * order_cost / holding_cost)"
  have r: "0 < 2 * annual_demand * order_cost / holding_cost" using assms by simp
  then have Q: "0 < Q" unfolding Q_def by (rule real_sqrt_gt_zero)
  have bal: "(annual_demand / Q) * order_cost = (Q / 2) * holding_cost"
    unfolding Q_def using assms by (rule sqrt_balance)
  have eoq: "Compute_EOQ annual_demand order_cost holding_cost = Inr (Num Q)"
    unfolding Q_def using assms(3) r by (rule EOQ_of_positive_radicand)
  have "Q \<noteq> 0" using Q by simp
  then have "Compute_EOQ_TAC Q annual_demand order_cost holding_cost unit_cost =
      Inr ((annual_demand / Q) * order_cost + (Q / 2) * holding_cost
           + unit_cost * annual_demand)"
    by (rule Compute_EOQ_TAC_nonzero)
  also have "(annual_demand / Q) * order_cost + (Q / 2) * holding_cost
      + unit_cost * annual_demand = Q * holding_cost + unit_cost * annual_demand"
    unfolding bal by simp
  finally have tac: "Compute_EOQ_TAC Q annual_demand order_cost holding_cost unit_cost =
      Inr (Q * holding_cost + unit_cost * annual_demand)" .
  from eoq Q bal tac show ?thesis by blast
qed

theorem EOQ_cost_balance_witness:
  "(0::real) < 1 \<and> (0::real) < 2 \<and> (0::real) < 1
   \<and> (\<exists>Q. Compute_EOQ 1 2 1 = Inr (Num Q) \<and> 0 < Q
      \<and> (1 / Q) * 2 = (Q / 2) * 1
      \<and> Compute_EOQ_TAC Q 1 2 1 8 = Inr (Q * 1 + 8 * 1))"
  using EOQ_cost_balance [of 1 2 1 8] by simp

end
